theory Spec2Isabelle
  imports Complex_Main
begin

section \<open>Fixed-point scalars\<close>

text \<open>
  The example includes \<^verbatim>\<open>kalman.h\<close>, which brings in the Q16.16 scalar type
  \<^verbatim>\<open>fix16_t\<close> (a signed 32-bit integer holding the value times 65536). The scalar
  library is not part of \<^verbatim>\<open>example_gravity.c\<close>; the definitions of this section
  give the operations the example calls.
\<close>

type_synonym fix16_t = int

text \<open>Modelled from the spec: the constant \<^verbatim>\<open>fix16_one\<close> of the scalar library, the
  16.16 representation of 1.\<close>

definition fix16_one :: fix16_t where
  "fix16_one = 65536"

text \<open>Modelled from the spec: the range of the 32-bit scalar, at which the operations
  saturate ("saturating on overflow").\<close>

definition fix16_maximum :: fix16_t where
  "fix16_maximum = 2147483647"

definition fix16_minimum :: fix16_t where
  "fix16_minimum = - 2147483648"

definition fix16_sat :: "int \<Rightarrow> fix16_t" where
  "fix16_sat v =
     (if fix16_maximum < v then fix16_maximum
      else if v < fix16_minimum then fix16_minimum
      else v)"

text \<open>Modelled from the spec: saturating addition and subtraction of the scalar
  library (\<^verbatim>\<open>fix16_add\<close> is called by both demo loops).\<close>

definition fix16_add :: "fix16_t \<Rightarrow> fix16_t \<Rightarrow> fix16_t" where
  "fix16_add a b = fix16_sat (a + b)"

definition fix16_sub :: "fix16_t \<Rightarrow> fix16_t \<Rightarrow> fix16_t" where
  "fix16_sub a b = fix16_sat (a - b)"

text \<open>Modelled from the spec: "deterministic rounding on multiply/divide". The quotient
  is rounded to the nearest integer, a tie away from zero. The spec leaves a division by
  zero open; here it gives \<open>fix16_minimum\<close>, and no run below divides by zero.\<close>

definition round_div :: "int \<Rightarrow> int \<Rightarrow> int" where
  "round_div a b = sgn a * sgn b * ((2 * \<bar>a\<bar> + \<bar>b\<bar>) div (2 * \<bar>b\<bar>))"

definition fix16_mul :: "fix16_t \<Rightarrow> fix16_t \<Rightarrow> fix16_t" where
  "fix16_mul a b = fix16_sat (round_div (a * b) fix16_one)"

definition fix16_div :: "fix16_t \<Rightarrow> fix16_t \<Rightarrow> fix16_t" where
  "fix16_div a b =
     (if b = 0 then fix16_minimum else fix16_sat (round_div (a * fix16_one) b))"

definition fix16_sq :: "fix16_t \<Rightarrow> fix16_t" where
  "fix16_sq a = fix16_mul a a"

text \<open>Modelled from the spec: the square root of the scalar library, rounded to the
  nearest representable value. \<open>isqrt n\<close> is the integer square root of
  \<open>0 \<le> n < 2 ^ 48\<close>, found bit by bit from the highest bit down.\<close>

fun sqrt_bits :: "int list \<Rightarrow> int \<Rightarrow> int \<Rightarrow> int" where
  "sqrt_bits [] n r = r"
| "sqrt_bits (b # bs) n r = sqrt_bits bs n (if (r + b) * (r + b) \<le> n then r + b else r)"

definition isqrt :: "int \<Rightarrow> int" where
  "isqrt n = sqrt_bits (map ((^) 2) (rev [0..<24])) n 0"

definition sqrt_nearest :: "int \<Rightarrow> int \<Rightarrow> int" where
  "sqrt_nearest n r = (if r * r + r < n then r + 1 else r)"

definition fix16_sqrt :: "fix16_t \<Rightarrow> fix16_t" where
  "fix16_sqrt a =
     (if a \<le> 0 then 0
      else sqrt_nearest (a * fix16_one) (isqrt (a * fix16_one)))"

text \<open>
  Conversions between the scalar and C's floating types. The floating values that the
  example converts (6, 0.5, the measurement tables, 0.9, and at the end an estimate
  below \<open>2 ^ 24 / 65536\<close>) are modelled by the rationals they denote; the cast to
  \<^verbatim>\<open>fix16_t\<close> truncates towards zero.
\<close>

definition float_cast :: "rat \<Rightarrow> int" where
  "float_cast v = (if 0 \<le> v then \<lfloor>v\<rfloor> else \<lceil>v\<rceil>)"

text \<open>Modelled from the spec: \<^verbatim>\<open>fix16_from_float\<close>, "conversion to/from a wide
  floating representation": scale by \<^verbatim>\<open>fix16_one\<close>, add half a unit towards the
  sign, cast.\<close>

definition fix16_from_float :: "rat \<Rightarrow> fix16_t" where
  "fix16_from_float a =
     (let temp = a * of_int fix16_one
      in float_cast (temp + (if 0 \<le> temp then 1 / 2 else - (1 / 2))))"

text \<open>Modelled from the spec: the macro \<^verbatim>\<open>F16\<close>, the compile-time form of the same
  conversion.\<close>

definition F16 :: "rat \<Rightarrow> fix16_t" where
  "F16 v = float_cast (if 0 \<le> v then v * 65536 + 1 / 2 else v * 65536 - 1 / 2)"

text \<open>Modelled from the spec: \<^verbatim>\<open>fix16_to_float\<close>, the scalar divided by
  \<^verbatim>\<open>fix16_one\<close>.\<close>

definition fix16_to_float :: "fix16_t \<Rightarrow> rat" where
  "fix16_to_float a = of_int a / of_int fix16_one"


section \<open>Matrices and the filter structures\<close>

text \<open>
  Modelled from the spec: the matrix type \<^verbatim>\<open>mf16\<close> (from \<^verbatim>\<open>kalman.h\<close>): the
  logical size and a two-dimensional array of scalars, which the example writes as
  \<^verbatim>\<open>matrix->data[row][column]\<close>. The array is a total function of the two indices;
  the capacity \<^verbatim>\<open>FIXMATRIX_MAX_SIZE\<close> of each dimension is a build parameter that the
  preprocessor guard below compares with the sizes the example uses.
\<close>

record mf16 =
  rows :: nat
  columns :: nat
  data :: "nat \<Rightarrow> nat \<Rightarrow> fix16_t"

text \<open>Lines 32-33 and 35-37: the two write macros of the example.\<close>

definition matrix_set :: "mf16 \<Rightarrow> nat \<Rightarrow> nat \<Rightarrow> fix16_t \<Rightarrow> mf16" where
  "matrix_set matrix row column v =
     matrix\<lparr>data := (data matrix)(row := (data matrix row)(column := v))\<rparr>"

definition matrix_set_symmetric :: "mf16 \<Rightarrow> nat \<Rightarrow> nat \<Rightarrow> fix16_t \<Rightarrow> mf16" where
  "matrix_set_symmetric matrix row column v =
     matrix_set (matrix_set matrix row column v) column row v"

text \<open>
  Modelled from the spec: the filter structure \<^verbatim>\<open>kalman_t\<close> and the measurement
  structure \<^verbatim>\<open>kalman_measurement_t\<close> of \<^verbatim>\<open>kalman.h\<close>, with one field for each
  matrix of the data model. The example reaches the fields through the accessors
  \<^verbatim>\<open>kalman_get_state_vector\<close> (x), \<^verbatim>\<open>kalman_get_state_transition\<close> (A),
  \<^verbatim>\<open>kalman_get_system_covariance\<close> (P), \<^verbatim>\<open>kalman_get_measurement_vector\<close> (z),
  \<^verbatim>\<open>kalman_get_measurement_transformation\<close> (H) and \<^verbatim>\<open>kalman_get_process_noise\<close>
  (R); each returns a pointer to the field, so a read is the selector and a write is
  the field update.
\<close>

record kalman_t =
  state_vector :: mf16
  state_transition :: mf16
  system_covariance :: mf16
  input_vector :: mf16
  input_transition :: mf16
  input_covariance :: mf16

record kalman_measurement_t =
  measurement_vector :: mf16
  measurement_transformation :: mf16
  process_noise :: mf16

text \<open>
  The functions of \<^verbatim>\<open>kalman.h\<close> that the example calls are not in
  \<^verbatim>\<open>example_gravity.c\<close>. The driver is modelled over their interface: each is a
  \<^verbatim>\<open>void\<close> call that updates the structures it is given a pointer to.
\<close>

record kalman_ops =
  kalman_filter_initialize :: "kalman_t \<Rightarrow> nat \<Rightarrow> nat \<Rightarrow> kalman_t"
  kalman_measurement_initialize :: "kalman_measurement_t \<Rightarrow> nat \<Rightarrow> nat \<Rightarrow> kalman_measurement_t"
  kalman_predict :: "kalman_t \<Rightarrow> kalman_t"
  kalman_predict_tuned :: "kalman_t \<Rightarrow> fix16_t \<Rightarrow> kalman_t"
  kalman_correct :: "kalman_t \<Rightarrow> kalman_measurement_t \<Rightarrow> kalman_t \<times> kalman_measurement_t"


section \<open>The example: estimating the gravity constant\<close>

text \<open>Lines 23-24, 29 and 130: the configuration macros.\<close>

definition KALMAN_NUM_STATES :: nat where
  "KALMAN_NUM_STATES = 3"

definition KALMAN_NUM_INPUTS :: nat where
  "KALMAN_NUM_INPUTS = 0"

definition KALMAN_NUM_MEASUREMENTS :: nat where
  "KALMAN_NUM_MEASUREMENTS = 1"

definition MEAS_COUNT :: nat where
  "MEAS_COUNT = 15"

text \<open>Lines 43-45: the translation unit is rejected (\<^verbatim>\<open>#error\<close>) unless the capacity
  covers the three counts. \<open>size_guard mx\<close> holds when a build with
  \<^verbatim>\<open>FIXMATRIX_MAX_SIZE = mx\<close> passes the guard.\<close>

definition size_guard :: "nat \<Rightarrow> bool" where
  "size_guard mx \<longleftrightarrow>
     \<not> (mx < KALMAN_NUM_STATES \<or> mx < KALMAN_NUM_INPUTS \<or> mx < KALMAN_NUM_MEASUREMENTS)"

text \<open>
  The two file-scope structures \<^verbatim>\<open>kf\<close> and \<^verbatim>\<open>kfm\<close> (lines 25 and 30) are the
  program state. The field \<open>calls\<close> is a history of the operations the demo loops
  perform, in order; it is not a variable of the program.
\<close>

datatype call =
  Predict
  | PredictTuned fix16_t
  | WriteZ fix16_t
  | Correct fix16_t

record world =
  kf :: kalman_t
  kfm :: kalman_measurement_t
  calls :: "call list"

text \<open>Lines 50-122: \<^verbatim>\<open>kalman_gravity_init\<close>.\<close>

definition kalman_gravity_init :: "kalman_ops \<Rightarrow> world \<Rightarrow> world" where
  "kalman_gravity_init ops w =
     (let kf0 = kalman_filter_initialize ops (kf w) KALMAN_NUM_STATES KALMAN_NUM_INPUTS;
          kfm0 = kalman_measurement_initialize ops (kfm w) KALMAN_NUM_STATES KALMAN_NUM_MEASUREMENTS;
          x0 = matrix_set (state_vector kf0) 0 0 0;
          x1 = matrix_set x0 1 0 0;
          x2 = matrix_set x1 2 0 (fix16_from_float 6);
          T = fix16_one;
          Tsquare = fix16_sq T;
          fix16_half = fix16_from_float 0.5;
          A0 = matrix_set (state_transition kf0) 0 0 fix16_one;
          A1 = matrix_set A0 0 1 T;
          A2 = matrix_set A1 0 2 (fix16_mul fix16_half Tsquare);
          A3 = matrix_set A2 1 0 0;
          A4 = matrix_set A3 1 1 fix16_one;
          A5 = matrix_set A4 1 2 T;
          A6 = matrix_set A5 2 0 0;
          A7 = matrix_set A6 2 1 0;
          A8 = matrix_set A7 2 2 fix16_one;
          P0 = matrix_set_symmetric (system_covariance kf0) 0 0 fix16_half;
          P1 = matrix_set_symmetric P0 0 1 0;
          P2 = matrix_set_symmetric P1 0 2 0;
          P3 = matrix_set_symmetric P2 1 1 fix16_one;
          P4 = matrix_set_symmetric P3 1 2 0;
          P5 = matrix_set_symmetric P4 2 2 fix16_one;
          H0 = matrix_set (measurement_transformation kfm0) 0 0 fix16_one;
          H1 = matrix_set H0 0 1 0;
          H2 = matrix_set H1 0 2 0;
          R0 = matrix_set (process_noise kfm0) 0 0 fix16_half
      in w\<lparr>kf := kf0\<lparr>state_vector := x2, state_transition := A8, system_covariance := P5\<rparr>,
            kfm := kfm0\<lparr>measurement_transformation := H2, process_noise := R0\<rparr>\<rparr>)"

text \<open>Lines 131-168: the two measurement tables.\<close>

definition real_distance :: "fix16_t list" where
  "real_distance =
     [F16 4.905, F16 19.62, F16 44.145, F16 78.48, F16 122.63,
      F16 176.58, F16 240.35, F16 313.92, F16 397.31, F16 490.5,
      F16 593.51, F16 706.32, F16 828.94, F16 961.38, F16 1103.6]"

definition measurement_error :: "fix16_t list" where
  "measurement_error =
     [F16 0.13442, F16 0.45847, F16 (- 0.56471), F16 0.21554, F16 0.079691,
      F16 (- 0.32692), F16 (- 0.1084), F16 0.085656, F16 0.8946, F16 0.69236,
      F16 (- 0.33747), F16 0.75873, F16 0.18135, F16 (- 0.015764), F16 0.17869]"

text \<open>The three statements of a loop body, each on the program state. A call of the
  filter library is recorded in the history when it is made; the entry of a correct
  call gives the content of \<^verbatim>\<open>z[0][0]\<close> that the call is handed.\<close>

definition call_predict :: "kalman_ops \<Rightarrow> world \<Rightarrow> world" where
  "call_predict ops w =
     w\<lparr>kf := kalman_predict ops (kf w), calls := calls w @ [Predict]\<rparr>"

definition call_predict_tuned :: "kalman_ops \<Rightarrow> fix16_t \<Rightarrow> world \<Rightarrow> world" where
  "call_predict_tuned ops lambda w =
     w\<lparr>kf := kalman_predict_tuned ops (kf w) lambda, calls := calls w @ [PredictTuned lambda]\<rparr>"

definition write_z :: "fix16_t \<Rightarrow> world \<Rightarrow> world" where
  "write_z measurement w =
     w\<lparr>kfm := (kfm w)\<lparr>measurement_vector :=
             matrix_set (measurement_vector (kfm w)) 0 0 measurement\<rparr>,
       calls := calls w @ [WriteZ measurement]\<rparr>"

definition call_correct :: "kalman_ops \<Rightarrow> world \<Rightarrow> world" where
  "call_correct ops w =
     (case kalman_correct ops (kf w) (kfm w) of
        (kf', kfm') \<Rightarrow>
          w\<lparr>kf := kf', kfm := kfm',
            calls := calls w @ [Correct (data (measurement_vector (kfm w)) 0 0)]\<rparr>)"

text \<open>Lines 185-193: the body of the loop of \<^verbatim>\<open>kalman_gravity_demo\<close>, at index
  \<open>i\<close>.\<close>

definition demo_body :: "kalman_ops \<Rightarrow> nat \<Rightarrow> world \<Rightarrow> world" where
  "demo_body ops i w =
     (let w1 = call_predict ops w;
          measurement = fix16_add (real_distance ! i) (measurement_error ! i);
          w2 = write_z measurement w1;
          w3 = call_correct ops w2
      in w3)"

text \<open>Lines 182-194: the loop, from index \<open>i\<close> on.\<close>

function demo_loop :: "kalman_ops \<Rightarrow> nat \<Rightarrow> world \<Rightarrow> world" where
  "demo_loop ops i w =
     (if i < MEAS_COUNT then demo_loop ops (i + 1) (demo_body ops i w) else w)"
  by pat_completeness auto
termination
  by (relation "measure (\<lambda>(ops, i, w). MEAS_COUNT - i)") auto

text \<open>Line 215 and lines 218-230: the constant \<^verbatim>\<open>lambda\<close>, and the body and the
  loop of \<^verbatim>\<open>kalman_gravity_demo_lambda\<close>.\<close>

definition demo_lambda_constant :: fix16_t where
  "demo_lambda_constant = F16 0.9"

definition demo_lambda_body :: "kalman_ops \<Rightarrow> fix16_t \<Rightarrow> nat \<Rightarrow> world \<Rightarrow> world" where
  "demo_lambda_body ops lambda i w =
     (let w1 = call_predict_tuned ops lambda w;
          measurement = fix16_add (real_distance ! i) (measurement_error ! i);
          w2 = write_z measurement w1;
          w3 = call_correct ops w2
      in w3)"

function demo_lambda_loop :: "kalman_ops \<Rightarrow> fix16_t \<Rightarrow> nat \<Rightarrow> world \<Rightarrow> world" where
  "demo_lambda_loop ops lambda i w =
     (if i < MEAS_COUNT
      then demo_lambda_loop ops lambda (i + 1) (demo_lambda_body ops lambda i w)
      else w)"
  by pat_completeness auto
termination
  by (relation "measure (\<lambda>(ops, lambda, i, w). MEAS_COUNT - i)") auto

text \<open>Lines 173-200 and 206-236: the two demos. Each ends with an assertion on the
  estimate read from \<^verbatim>\<open>x->data[2][0]\<close>; a failed assertion aborts the program.
  The float that the assertion compares is the scalar divided by 65536, exactly while
  the scalar is below \<open>2 ^ 24\<close> in size, as every scalar within the two bounds is; a
  larger one gives a float of size 256 or more, here as there outside the bounds. The
  bound \<^verbatim>\<open>9.7\<close> is the double nearest to 9.7, and no multiple of \<open>1 / 65536\<close> lies
  between the two.\<close>

datatype abort = AssertionFailed

definition estimate_accepted :: "world \<Rightarrow> bool" where
  "estimate_accepted w =
     (let g_estimated = data (state_vector (kf w)) 2 0;
          val = fix16_to_float g_estimated
      in 9.7 < val \<and> val < 10)"

definition kalman_gravity_demo :: "kalman_ops \<Rightarrow> world \<Rightarrow> abort + world" where
  "kalman_gravity_demo ops w =
     (let w1 = kalman_gravity_init ops w;
          w2 = demo_loop ops 0 w1
      in if estimate_accepted w2 then Inr w2 else Inl AssertionFailed)"

definition kalman_gravity_demo_lambda :: "kalman_ops \<Rightarrow> world \<Rightarrow> abort + world" where
  "kalman_gravity_demo_lambda ops w =
     (let w1 = kalman_gravity_init ops w;
          lambda = demo_lambda_constant;
          w2 = demo_lambda_loop ops lambda 0 w1
      in if estimate_accepted w2 then Inr w2 else Inl AssertionFailed)"

text \<open>Lines 239-243: \<^verbatim>\<open>main\<close> runs the first demo and then the second.\<close>

definition main :: "kalman_ops \<Rightarrow> world \<Rightarrow> abort + world" where
  "main ops w =
     (case kalman_gravity_demo ops w of
        Inl a \<Rightarrow> Inl a
      | Inr w1 \<Rightarrow> kalman_gravity_demo_lambda ops w1)"


section \<open>The filter core\<close>

text \<open>
  The file that implements the filter (\<^verbatim>\<open>kalman.c\<close>) and the matrix library it
  uses are not among the sources. This section gives them as the specification
  describes them (sections 3, 4, 6 and 7).
\<close>

datatype error = DimensionError | SingularInnovationError

subsection \<open>Matrix operations\<close>

text \<open>Modelled from the spec: the matrix container, "a rectangular buffer of fixed-point
  scalars ... supporting multiply, transpose, addition, scalar-multiply". An operation
  reads the rows (or the columns) of its arguments within their logical size and
  builds its result from the list of the result's rows; cells outside the logical size
  of a result are zero.\<close>

definition mf16_make :: "nat \<Rightarrow> nat \<Rightarrow> fix16_t list list \<Rightarrow> mf16" where
  "mf16_make r c xss =
     \<lparr>rows = r, columns = c, data = (\<lambda>i j. if i < r \<and> j < c then xss ! i ! j else 0)\<rparr>"

definition mf16_zero :: "nat \<Rightarrow> nat \<Rightarrow> mf16" where
  "mf16_zero r c = \<lparr>rows = r, columns = c, data = (\<lambda>i j. 0)\<rparr>"

definition mf16_row :: "mf16 \<Rightarrow> nat \<Rightarrow> fix16_t list" where
  "mf16_row m i = map (data m i) [0..<columns m]"

definition mf16_rows :: "mf16 \<Rightarrow> fix16_t list list" where
  "mf16_rows m = map (mf16_row m) [0..<rows m]"

definition data_in_column :: "mf16 \<Rightarrow> nat \<Rightarrow> nat \<Rightarrow> fix16_t" where
  "data_in_column m j i = data m i j"

definition mf16_column :: "mf16 \<Rightarrow> nat \<Rightarrow> fix16_t list" where
  "mf16_column m j = map (data_in_column m j) [0..<rows m]"

definition mf16_columns :: "mf16 \<Rightarrow> fix16_t list list" where
  "mf16_columns m = map (mf16_column m) [0..<columns m]"

fun dot_from :: "fix16_t \<Rightarrow> fix16_t list \<Rightarrow> fix16_t list \<Rightarrow> fix16_t" where
  "dot_from acc (x # xs) (y # ys) = dot_from (fix16_add acc (fix16_mul x y)) xs ys"
| "dot_from acc xs ys = acc"

definition dot :: "fix16_t list \<Rightarrow> fix16_t list \<Rightarrow> fix16_t" where
  "dot xs ys = dot_from 0 xs ys"

definition row_times :: "fix16_t list list \<Rightarrow> fix16_t list \<Rightarrow> fix16_t list" where
  "row_times cs r = map (dot r) cs"

definition mf16_mul :: "mf16 \<Rightarrow> mf16 \<Rightarrow> mf16" where
  "mf16_mul a b =
     mf16_make (rows a) (columns b) (map (row_times (mf16_columns b)) (mf16_rows a))"

definition mf16_transpose :: "mf16 \<Rightarrow> mf16" where
  "mf16_transpose a = mf16_make (columns a) (rows a) (mf16_columns a)"

fun row_map2 :: "(fix16_t \<Rightarrow> fix16_t \<Rightarrow> fix16_t) \<Rightarrow> fix16_t list \<Rightarrow> fix16_t list \<Rightarrow> fix16_t list" where
  "row_map2 f (x # xs) (y # ys) = f x y # row_map2 f xs ys"
| "row_map2 f xs ys = []"

fun rows_map2 ::
  "(fix16_t \<Rightarrow> fix16_t \<Rightarrow> fix16_t) \<Rightarrow> fix16_t list list \<Rightarrow> fix16_t list list \<Rightarrow> fix16_t list list" where
  "rows_map2 f (r # rs) (s # ss) = row_map2 f r s # rows_map2 f rs ss"
| "rows_map2 f rs ss = []"

definition mf16_add :: "mf16 \<Rightarrow> mf16 \<Rightarrow> mf16" where
  "mf16_add a b =
     mf16_make (rows a) (columns a) (rows_map2 fix16_add (mf16_rows a) (mf16_rows b))"

definition mf16_sub :: "mf16 \<Rightarrow> mf16 \<Rightarrow> mf16" where
  "mf16_sub a b =
     mf16_make (rows a) (columns a) (rows_map2 fix16_sub (mf16_rows a) (mf16_rows b))"

definition mf16_mul_s :: "mf16 \<Rightarrow> fix16_t \<Rightarrow> mf16" where
  "mf16_mul_s a s = mf16_make (rows a) (columns a) (map (map (fix16_mul s)) (mf16_rows a))"

text \<open>Modelled from the spec: the mirrored write of section 3 ("diagonal and
  off-diagonal mirrored writes") and of section 4.2, step 5 ("write the mirrored value,
  not recomputed independently"): the entry on or above the diagonal is the value of
  both places.\<close>

definition mirror_entry :: "mf16 \<Rightarrow> nat \<Rightarrow> nat \<Rightarrow> fix16_t" where
  "mirror_entry m i j = (if i \<le> j then data m i j else data m j i)"

definition mirror_row :: "mf16 \<Rightarrow> nat \<Rightarrow> fix16_t list" where
  "mirror_row m i = map (mirror_entry m i) [0..<columns m]"

definition mf16_mirror :: "mf16 \<Rightarrow> mf16" where
  "mf16_mirror m = mf16_make (rows m) (columns m) (map (mirror_row m) [0..<rows m])"

text \<open>Modelled from the spec: the "Cholesky-like decomposition". \<open>cholesky S\<close> is the
  lower-triangular factor \<open>L\<close> of \<open>S = L L\<^sup>T\<close>, row \<open>i\<close> holding the entries
  \<open>L i 0 .. L i i\<close>; it is \<open>None\<close> when a pivot is not positive.
  In \<open>chol_row s Ls acc\<close>, \<open>s\<close> is what is left of row \<open>i\<close> of \<open>S\<close> from column
  \<open>j\<close> on, \<open>Ls\<close> holds the rows \<open>j, ..., i - 1\<close> of \<open>L\<close>, and \<open>acc\<close> the entries
  \<open>L i 0 .. L i (j - 1)\<close>.\<close>

definition chol_pivot :: "fix16_t list \<Rightarrow> fix16_t \<Rightarrow> fix16_t list option" where
  "chol_pivot acc r = (if r \<le> 0 then None else Some (acc @ [fix16_sqrt r]))"

fun chol_row :: "fix16_t list \<Rightarrow> fix16_t list list \<Rightarrow> fix16_t list \<Rightarrow> fix16_t list option" where
  "chol_row [] Ls acc = None"
| "chol_row (sij # s) [] acc = chol_pivot acc (fix16_sub sij (dot acc acc))"
| "chol_row (sij # s) (Lj # Ls) acc =
     chol_row s Ls (acc @ [fix16_div (fix16_sub sij (dot acc Lj)) (last Lj)])"

fun chol_append :: "fix16_t list list \<Rightarrow> fix16_t list option \<Rightarrow> fix16_t list list option" where
  "chol_append L None = None"
| "chol_append L (Some r) = Some (L @ [r])"

fun chol_rows :: "fix16_t list list \<Rightarrow> fix16_t list list option \<Rightarrow> fix16_t list list option" where
  "chol_rows ss None = None"
| "chol_rows [] (Some L) = Some L"
| "chol_rows (s # ss) (Some L) = chol_rows ss (chol_append L (chol_row s L []))"

definition cholesky :: "fix16_t list list \<Rightarrow> fix16_t list list option" where
  "cholesky S = chol_rows S (Some [])"

text \<open>Modelled from the spec: the "numerically-stable solve (used to avoid explicit
  inversion in the gain computation)". \<open>solve_row L b\<close> is the row \<open>x\<close> with
  \<open>x (L L\<^sup>T) = b\<close>: a forward substitution with \<open>L\<close>, then a backward substitution
  with \<open>L\<^sup>T\<close>, whose row \<open>i\<close> from the diagonal on is \<open>upper_row L i\<close>.
  \<open>mf16_solve S B\<close> is the matrix \<open>X\<close> with \<open>X S = B\<close>, or \<open>None\<close> when the
  decomposition reports that \<open>S\<close> is singular.\<close>

fun forward_subst :: "fix16_t list list \<Rightarrow> fix16_t list \<Rightarrow> fix16_t list \<Rightarrow> fix16_t list" where
  "forward_subst (Li # Ls) (bi # bs) ys =
     forward_subst Ls bs (ys @ [fix16_div (fix16_sub bi (dot Li ys)) (last Li)])"
| "forward_subst Ls bs ys = ys"

fun backward_subst :: "(fix16_t list \<times> fix16_t) list \<Rightarrow> fix16_t list \<Rightarrow> fix16_t list" where
  "backward_subst [] xs = xs"
| "backward_subst ((Ui, yi) # rest) xs =
     backward_subst rest (fix16_div (fix16_sub yi (dot (tl Ui) xs)) (hd Ui) # xs)"

definition lower_entry :: "fix16_t list list \<Rightarrow> nat \<Rightarrow> nat \<Rightarrow> fix16_t" where
  "lower_entry L i j = L ! j ! i"

definition upper_row :: "fix16_t list list \<Rightarrow> nat \<Rightarrow> fix16_t list" where
  "upper_row L i = map (lower_entry L i) [i..<length L]"

definition solve_row :: "fix16_t list list \<Rightarrow> fix16_t list \<Rightarrow> fix16_t list" where
  "solve_row L b =
     backward_subst (rev (zip (map (upper_row L) [0..<length L]) (forward_subst L b []))) []"

fun solve_rows :: "mf16 \<Rightarrow> fix16_t list list option \<Rightarrow> mf16 option" where
  "solve_rows B None = None"
| "solve_rows B (Some L) =
     Some (mf16_make (rows B) (columns B) (map (solve_row L) (mf16_rows B)))"

definition mf16_solve :: "mf16 \<Rightarrow> mf16 \<Rightarrow> mf16 option" where
  "mf16_solve S B = solve_rows B (cholesky (mf16_rows S))"

subsection \<open>Filter state: initialize and predict\<close>

text \<open>Modelled from the spec: Initialize(n, m) of section 4.1, "zero all matrices
  logically sized to n (states) and m (inputs); fails with DimensionError if n or m
  exceeds the compile-time maximum dimension". \<open>mx\<close> is that maximum,
  \<^verbatim>\<open>FIXMATRIX_MAX_SIZE\<close>. The noise \<open>Q\<close> is given the size of \<open>P\<close>, to which Predict
  adds it.\<close>

definition filter_initialize :: "nat \<Rightarrow> nat \<Rightarrow> nat \<Rightarrow> error + kalman_t" where
  "filter_initialize mx n m =
     (if mx < n \<or> mx < m then Inl DimensionError
      else Inr \<lparr>state_vector = mf16_zero n 1,
                state_transition = mf16_zero n n,
                system_covariance = mf16_zero n n,
                input_vector = mf16_zero m 1,
                input_transition = mf16_zero n m,
                input_covariance = mf16_zero n n\<rparr>)"

text \<open>Modelled from the spec: Predict() of section 4.1, "computes x <- A x [+ B u], then
  P <- A P A^T [+ Q], using the external matrix-multiply and transpose primitives";
  the bracketed terms apply when the system has control inputs. Section 3 asks of the
  covariance that "symmetry must be preserved by every update (diagonal and
  off-diagonal mirrored writes)", and names predict among the updates: the new \<open>P\<close> is
  written with the mirrored write.\<close>

definition predict_x :: "kalman_t \<Rightarrow> mf16" where
  "predict_x k =
     (if 0 < columns (input_transition k)
      then mf16_add (mf16_mul (state_transition k) (state_vector k))
             (mf16_mul (input_transition k) (input_vector k))
      else mf16_mul (state_transition k) (state_vector k))"

definition predict_P :: "kalman_t \<Rightarrow> mf16" where
  "predict_P k =
     mf16_mirror
       (if 0 < columns (input_transition k)
        then mf16_add
               (mf16_mul (mf16_mul (state_transition k) (system_covariance k))
                  (mf16_transpose (state_transition k)))
               (input_covariance k)
        else mf16_mul (mf16_mul (state_transition k) (system_covariance k))
               (mf16_transpose (state_transition k)))"

definition filter_predict :: "kalman_t \<Rightarrow> kalman_t" where
  "filter_predict k = k\<lparr>state_vector := predict_x k, system_covariance := predict_P k\<rparr>"

text \<open>Modelled from the spec: PredictTuned(lambda) of section 4.1, "identical state
  propagation for x, but inflates the propagated covariance by 1/lambda^2".\<close>

definition filter_predict_tuned :: "kalman_t \<Rightarrow> fix16_t \<Rightarrow> kalman_t" where
  "filter_predict_tuned k lambda =
     k\<lparr>state_vector := predict_x k,
       system_covariance :=
         mf16_mul_s (predict_P k) (fix16_div fix16_one (fix16_sq lambda))\<rparr>"

subsection \<open>Measurement definition: initialize and correct\<close>

text \<open>Modelled from the spec: Initialize(n, k) of section 4.2, "zero all matrices
  logically sized to n states and k measurements; fails with DimensionError under the
  same bound as filter initialization".\<close>

definition measurement_initialize :: "nat \<Rightarrow> nat \<Rightarrow> nat \<Rightarrow> error + kalman_measurement_t" where
  "measurement_initialize mx n k =
     (if mx < n \<or> mx < k then Inl DimensionError
      else Inr \<lparr>measurement_vector = mf16_zero k 1,
                measurement_transformation = mf16_zero k n,
                process_noise = mf16_zero k k\<rparr>)"

text \<open>Modelled from the spec: step 1 of Correct, the innovation covariance
  "S = H P H^T + R".\<close>

definition innovation_covariance :: "kalman_t \<Rightarrow> kalman_measurement_t \<Rightarrow> mf16" where
  "innovation_covariance k m =
     mf16_add
       (mf16_mul (mf16_mul (measurement_transformation m) (system_covariance k))
          (mf16_transpose (measurement_transformation m)))
       (process_noise m)"

text \<open>Modelled from the spec: step 2 of Correct, the gain "K = P H^T S^-1, computed via
  the external stable-solve primitive rather than an explicit matrix inverse".\<close>

definition kalman_gain :: "kalman_t \<Rightarrow> kalman_measurement_t \<Rightarrow> mf16 option" where
  "kalman_gain k m =
     mf16_solve (innovation_covariance k m)
       (mf16_mul (system_covariance k) (mf16_transpose (measurement_transformation m)))"

text \<open>Modelled from the spec: steps 3 to 5 of Correct, for a gain \<open>K\<close>: "y = z - H x",
  "x <- x + K y", "P <- P - K H P, with symmetry re-enforced".\<close>

definition innovation :: "kalman_t \<Rightarrow> kalman_measurement_t \<Rightarrow> mf16" where
  "innovation k m =
     mf16_sub (measurement_vector m) (mf16_mul (measurement_transformation m) (state_vector k))"

definition corrected_x :: "kalman_t \<Rightarrow> kalman_measurement_t \<Rightarrow> mf16 \<Rightarrow> mf16" where
  "corrected_x k m K = mf16_add (state_vector k) (mf16_mul K (innovation k m))"

definition corrected_P :: "kalman_t \<Rightarrow> kalman_measurement_t \<Rightarrow> mf16 \<Rightarrow> mf16" where
  "corrected_P k m K =
     mf16_mirror
       (mf16_sub (system_covariance k)
          (mf16_mul K (mf16_mul (measurement_transformation m) (system_covariance k))))"

text \<open>Modelled from the spec: Correct(filterState) of section 4.2: "if S is not
  invertible within the fixed-point precision (solve primitive reports singularity),
  the call fails with SingularInnovationError".\<close>

fun correct_with :: "kalman_t \<Rightarrow> kalman_measurement_t \<Rightarrow> mf16 option \<Rightarrow> error + kalman_t" where
  "correct_with k m None = Inl SingularInnovationError"
| "correct_with k m (Some K) =
     Inr (k\<lparr>state_vector := corrected_x k m K, system_covariance := corrected_P k m K\<rparr>)"

definition measurement_correct :: "kalman_t \<Rightarrow> kalman_measurement_t \<Rightarrow> error + kalman_t" where
  "measurement_correct k m = correct_with k m (kalman_gain k m)"

subsection \<open>The library as the example calls it\<close>

text \<open>Modelled from the spec: the five entry points behind the interface of the
  driver. The example calls each as a statement, so a reported error is dropped; on
  an error the structures stay as they were ("no mutation of shared buffers", "leaves
  x, P unmodified").\<close>

fun unless_error :: "'a \<Rightarrow> error + 'a \<Rightarrow> 'a" where
  "unless_error old (Inl e) = old"
| "unless_error old (Inr new) = new"

definition void_filter_initialize :: "nat \<Rightarrow> kalman_t \<Rightarrow> nat \<Rightarrow> nat \<Rightarrow> kalman_t" where
  "void_filter_initialize mx k n m = unless_error k (filter_initialize mx n m)"

definition void_measurement_initialize ::
  "nat \<Rightarrow> kalman_measurement_t \<Rightarrow> nat \<Rightarrow> nat \<Rightarrow> kalman_measurement_t" where
  "void_measurement_initialize mx m n k = unless_error m (measurement_initialize mx n k)"

definition void_correct ::
  "kalman_t \<Rightarrow> kalman_measurement_t \<Rightarrow> kalman_t \<times> kalman_measurement_t" where
  "void_correct k m = (unless_error k (measurement_correct k m), m)"

definition spec_ops :: "nat \<Rightarrow> kalman_ops" where
  "spec_ops mx =
     \<lparr>kalman_filter_initialize = void_filter_initialize mx,
      kalman_measurement_initialize = void_measurement_initialize mx,
      kalman_predict = filter_predict,
      kalman_predict_tuned = filter_predict_tuned,
      kalman_correct = void_correct\<rparr>"


section \<open>Notions used in the statements\<close>

text \<open>The program state at start: static storage is zero-initialised, and nothing has
  been called.\<close>

definition static_world :: world where
  "static_world =
     \<lparr>kf = \<lparr>state_vector = mf16_zero 0 0, state_transition = mf16_zero 0 0,
             system_covariance = mf16_zero 0 0, input_vector = mf16_zero 0 0,
             input_transition = mf16_zero 0 0, input_covariance = mf16_zero 0 0\<rparr>,
      kfm = \<lparr>measurement_vector = mf16_zero 0 0, measurement_transformation = mf16_zero 0 0,
              process_noise = mf16_zero 0 0\<rparr>,
      calls = []\<rparr>"

text \<open>What one loop body does to the two structures, for any filter library: the
  measurement structure with measurement \<open>i\<close> in \<^verbatim>\<open>z[0][0]\<close>, and the library's
  correct call on the result of its predict call and that structure.\<close>

definition take_measurement :: "nat \<Rightarrow> kalman_measurement_t \<Rightarrow> kalman_measurement_t" where
  "take_measurement i m =
     m\<lparr>measurement_vector :=
         matrix_set (measurement_vector m) 0 0
           (fix16_add (real_distance ! i) (measurement_error ! i))\<rparr>"


definition tuned_cycle ::
  "kalman_ops \<Rightarrow> fix16_t \<Rightarrow> nat \<Rightarrow> kalman_t \<times> kalman_measurement_t \<Rightarrow>
     kalman_t \<times> kalman_measurement_t" where
  "tuned_cycle ops lambda i s =
     kalman_correct ops (kalman_predict_tuned ops (fst s) lambda) (take_measurement i (snd s))"

text \<open>The cycles of the two loops over the filter core, in a form that evaluates.\<close>

fun spec_cycles ::
  "nat list \<Rightarrow> kalman_t \<times> kalman_measurement_t \<Rightarrow> kalman_t \<times> kalman_measurement_t" where
  "spec_cycles [] s = s"
| "spec_cycles (i # js) (k, m) =
     spec_cycles js (void_correct (filter_predict k) (take_measurement i m))"

fun spec_cycles_tuned ::
  "fix16_t \<Rightarrow> nat list \<Rightarrow> kalman_t \<times> kalman_measurement_t \<Rightarrow> kalman_t \<times> kalman_measurement_t" where
  "spec_cycles_tuned l [] s = s"
| "spec_cycles_tuned l (i # js) (k, m) =
     spec_cycles_tuned l js (void_correct (filter_predict_tuned k l) (take_measurement i m))"

definition observe :: "mf16 \<Rightarrow> nat \<times> nat \<times> fix16_t list list" where
  "observe m = (rows m, columns m, mf16_rows m)"

definition configuration :: "world \<Rightarrow> mf16 \<times> mf16 \<times> mf16" where
  "configuration w =
     (state_transition (kf w), measurement_transformation (kfm w), process_noise (kfm w))"

definition keeps_configuration :: "kalman_ops \<Rightarrow> bool" where
  "keeps_configuration ops \<longleftrightarrow>
     (\<forall>k. state_transition (kalman_predict ops k) = state_transition k) \<and>
     (\<forall>k l. state_transition (kalman_predict_tuned ops k l) = state_transition k) \<and>
     (\<forall>k m. state_transition (fst (kalman_correct ops k m)) = state_transition k \<and>
            measurement_transformation (snd (kalman_correct ops k m)) = measurement_transformation m \<and>
            process_noise (snd (kalman_correct ops k m)) = process_noise m)"

definition symmetric_upto :: "nat \<Rightarrow> mf16 \<Rightarrow> bool" where
  "symmetric_upto n m \<longleftrightarrow> (\<forall>i < n. \<forall>j < n. data m i j = data m j i)"

text \<open>The filter of the example with a symmetric covariance: three states, \<open>A\<close> and \<open>P\<close>
  of logical size 3x3, and \<open>P[i][j] = P[j][i]\<close> in that range.\<close>

definition symmetric_filter :: "kalman_t \<Rightarrow> bool" where
  "symmetric_filter k \<longleftrightarrow>
     rows (state_transition k) = 3 \<and>
     rows (system_covariance k) = 3 \<and>
     columns (system_covariance k) = 3 \<and>
     symmetric_upto 3 (system_covariance k)"

text \<open>The two structures as \<^verbatim>\<open>kalman_gravity_init\<close> leaves them when the library is the
  core of the previous section.\<close>

definition gravity_start :: "kalman_t \<times> kalman_measurement_t" where
  "gravity_start =
     (kf (kalman_gravity_init (spec_ops 3) static_world),
      kfm (kalman_gravity_init (spec_ops 3) static_world))"


section \<open>Properties\<close>

declare demo_loop.simps [simp del]
declare demo_lambda_loop.simps [simp del]

subsection \<open>Writes\<close>

lemma data_matrix_set:
  "data (matrix_set m r c v) i j = (if i = r \<and> j = c then v else data m i j)"
  by (simp add: matrix_set_def)

lemma rows_matrix_set [simp]: "rows (matrix_set m r c v) = rows m"
  and columns_matrix_set [simp]: "columns (matrix_set m r c v) = columns m"
  by (simp_all add: matrix_set_def)

lemma data_matrix_set_symmetric:
  "data (matrix_set_symmetric m r c v) i j =
     (if (i = r \<and> j = c) \<or> (i = c \<and> j = r) then v else data m i j)"
  unfolding matrix_set_symmetric_def data_matrix_set
  by (cases "i = r"; cases "j = c"; cases "i = c"; cases "j = r"; simp)


subsection \<open>Scalar constants of the example\<close>

lemma fix16_from_float_6: "fix16_from_float 6 = 393216"
  by code_simp

lemma fix16_from_float_half: "fix16_from_float (1 / 2) = 32768"
  by code_simp

lemma half_T_square: "fix16_mul 32768 (fix16_sq 65536) = 32768"
  by code_simp

lemma F16_lambda: "F16 (9 / 10) = 58982"
  by code_simp

subsection \<open>The state after initialisation\<close>

lemma fix16_from_float_0: "fix16_from_float 0 = 0"
  by code_simp

lemma fix16_from_float_1: "fix16_from_float 1 = 65536"
  by code_simp

text \<open>
  Claim C4. After \<^verbatim>\<open>kalman_gravity_init\<close>, whatever the two initialisation calls of
  the library did to the structures, the state vector is \<open>(0, 0, fix16_from_float 6)\<close>
  and the state transition is the fixed-point form of the free-fall matrix with rows
  \<open>[1, T, 0.5 T\<^sup>2]\<close>, \<open>[0, 1, T]\<close>, \<open>[0, 0, 1]\<close> for \<open>T = 1\<close>, that is
  \<open>[65536, 65536, 32768]\<close>, \<open>[0, 65536, 65536]\<close>, \<open>[0, 0, 65536]\<close>.
\<close>

theorem init_state_and_transition:
  "(let w' = kalman_gravity_init ops w;
        x = state_vector (kf w');
        A = state_transition (kf w');
        T = 1
    in map (\<lambda>i. data x i 0) [0, 1, 2] = [0, 0, fix16_from_float 6] \<and>
       map (\<lambda>i. map (data A i) [0, 1, 2]) [0, 1, 2] =
         map (map fix16_from_float) [[1, T, 0.5 * T\<^sup>2], [0, 1, T], [0, 0, 1]] \<and>
       map (\<lambda>i. map (data A i) [0, 1, 2]) [0, 1, 2] =
         [[65536, 65536, 32768], [0, 65536, 65536], [0, 0, 65536]])"
  by (simp add: kalman_gravity_init_def Let_def data_matrix_set
      fix16_from_float_0 fix16_from_float_1 fix16_from_float_half fix16_one_def
      half_T_square)

text \<open>
  Claim C5. After \<^verbatim>\<open>kalman_gravity_init\<close>, whatever the two initialisation calls of
  the library did to the structures, the measurement transformation \<open>H\<close> has the row
  \<open>[1, 0, 0]\<close>, the measurement noise \<open>R\<close> is 0.5, and the covariance \<open>P\<close> has the
  diagonal \<open>(0.5, 1, 1)\<close> and zeros elsewhere, all in fixed-point form.
\<close>

theorem init_measurement_model:
  "(let w' = kalman_gravity_init ops w;
        H = measurement_transformation (kfm w');
        R = process_noise (kfm w');
        P = system_covariance (kf w')
    in map (data H 0) [0, 1, 2] = map fix16_from_float [1, 0, 0] \<and>
       data R 0 0 = fix16_from_float 0.5 \<and>
       map (\<lambda>i. map (data P i) [0, 1, 2]) [0, 1, 2] =
         map (map fix16_from_float) [[0.5, 0, 0], [0, 1, 0], [0, 0, 1]] \<and>
       map (data H 0) [0, 1, 2] = [65536, 0, 0] \<and>
       data R 0 0 = 32768 \<and>
       map (\<lambda>i. map (data P i) [0, 1, 2]) [0, 1, 2] =
         [[32768, 0, 0], [0, 65536, 0], [0, 0, 65536]])"
  by (simp add: kalman_gravity_init_def Let_def data_matrix_set data_matrix_set_symmetric
      fix16_from_float_0 fix16_from_float_1 fix16_from_float_half fix16_one_def)

subsection \<open>The loops as folds\<close>

lemma demo_loop_fold: "demo_loop ops i w = fold (demo_body ops) [i..<MEAS_COUNT] w"
proof (induction ops i w rule: demo_loop.induct)
  case (1 ops i w)
  show ?case
  proof (cases "i < MEAS_COUNT")
    case True
    then have "[i..<MEAS_COUNT] = i # [i + 1..<MEAS_COUNT]"
      by (simp add: upt_conv_Cons)
    with True 1 show ?thesis
      by (subst demo_loop.simps) simp
  next
    case False
    then show ?thesis
      by (subst demo_loop.simps) simp
  qed
qed

lemma demo_lambda_loop_fold:
  "demo_lambda_loop ops l i w = fold (demo_lambda_body ops l) [i..<MEAS_COUNT] w"
proof (induction ops l i w rule: demo_lambda_loop.induct)
  case (1 ops l i w)
  show ?case
  proof (cases "i < MEAS_COUNT")
    case True
    then have "[i..<MEAS_COUNT] = i # [i + 1..<MEAS_COUNT]"
      by (simp add: upt_conv_Cons)
    with True 1 show ?thesis
      by (subst demo_lambda_loop.simps) simp
  next
    case False
    then show ?thesis
      by (subst demo_lambda_loop.simps) simp
  qed
qed

subsection \<open>The history of calls\<close>





subsection \<open>The state after a loop body\<close>


lemma state_demo_lambda_body:
  "(kf (demo_lambda_body ops lambda i w), kfm (demo_lambda_body ops lambda i w)) =
     kalman_correct ops (kalman_predict_tuned ops (kf w) lambda)
       ((kfm w)\<lparr>measurement_vector :=
           matrix_set (measurement_vector (kfm w)) 0 0
             (fix16_add (real_distance ! i) (measurement_error ! i))\<rparr>)"
  by (simp add: demo_lambda_body_def Let_def call_predict_tuned_def write_z_def call_correct_def
      split: prod.split)


lemma state_fold_demo_lambda_body:
  "(kf (fold (demo_lambda_body ops lambda) js w), kfm (fold (demo_lambda_body ops lambda) js w)) =
     fold (tuned_cycle ops lambda) js (kf w, kfm w)"
proof (induction js arbitrary: w)
  case Nil
  show ?case by simp
next
  case (Cons i js)
  from Cons [of "demo_lambda_body ops lambda i w"] state_demo_lambda_body [of ops lambda i w]
  show ?case by (simp add: tuned_cycle_def take_measurement_def)
qed


lemma state_demo_lambda_loop:
  "(kf (demo_lambda_loop ops lambda 0 w), kfm (demo_lambda_loop ops lambda 0 w)) =
     fold (tuned_cycle ops lambda) [0..<15] (kf w, kfm w)"
  using state_fold_demo_lambda_body [of ops lambda "[0..<15]" w]
  by (simp add: demo_lambda_loop_fold MEAS_COUNT_def)






subsection \<open>The tuning constant\<close>

lemma init_without_tuned:
  "kalman_gravity_init (ops\<lparr>kalman_predict_tuned := f\<rparr>) w = kalman_gravity_init ops w"
  by (simp add: kalman_gravity_init_def)

lemma demo_body_without_tuned:
  "demo_body (ops\<lparr>kalman_predict_tuned := f\<rparr>) i w = demo_body ops i w"
  by (simp add: demo_body_def call_predict_def call_correct_def)

lemma demo_loop_without_tuned:
  "demo_loop (ops\<lparr>kalman_predict_tuned := f\<rparr>) i w = demo_loop ops i w"
proof -
  have "demo_body (ops\<lparr>kalman_predict_tuned := f\<rparr>) = demo_body ops"
    by (intro ext) (rule demo_body_without_tuned)
  then show ?thesis
    by (simp add: demo_loop_fold)
qed

lemma kalman_gravity_demo_without_tuned:
  "kalman_gravity_demo (ops\<lparr>kalman_predict_tuned := f\<rparr>) w = kalman_gravity_demo ops w"
  by (simp add: kalman_gravity_demo_def init_without_tuned demo_loop_without_tuned)

lemma demo_lambda_loop_at_lambda:
  assumes "\<forall>k. f k lambda = kalman_predict_tuned ops k lambda"
  shows "demo_lambda_loop (ops\<lparr>kalman_predict_tuned := f\<rparr>) lambda i w =
         demo_lambda_loop ops lambda i w"
proof -
  have "demo_lambda_body (ops\<lparr>kalman_predict_tuned := f\<rparr>) lambda = demo_lambda_body ops lambda"
    using assms by (intro ext) (simp add: demo_lambda_body_def call_predict_tuned_def
        call_correct_def)
  then show ?thesis
    by (simp add: demo_lambda_loop_fold)
qed

lemma kalman_gravity_demo_lambda_at_lambda:
  assumes "\<forall>k. f k 58982 = kalman_predict_tuned ops k 58982"
  shows "kalman_gravity_demo_lambda (ops\<lparr>kalman_predict_tuned := f\<rparr>) w =
         kalman_gravity_demo_lambda ops w"
  using demo_lambda_loop_at_lambda [of f 58982 ops, OF assms]
  by (simp add: kalman_gravity_demo_lambda_def init_without_tuned demo_lambda_constant_def
      F16_lambda)

lemma main_at_lambda:
  assumes "\<forall>k. f k 58982 = kalman_predict_tuned ops k 58982"
  shows "main (ops\<lparr>kalman_predict_tuned := f\<rparr>) w = main ops w"
  using kalman_gravity_demo_lambda_at_lambda [of f ops, OF assms]
  by (simp add: main_def kalman_gravity_demo_without_tuned split: sum.split)

lemma F16_lambda_range: "F16 0.9 = 58982 \<and> 0 < F16 0.9 \<and> F16 0.9 \<le> fix16_one"
  by (simp add: F16_lambda fix16_one_def)

lemma kf_call_predict_tuned:
  "kf (call_predict_tuned ops lambda w) = kalman_predict_tuned ops (kf w) lambda"
  by (simp add: call_predict_tuned_def)

lemma kalman_gravity_demo_lambda_pinned:
  "kalman_gravity_demo_lambda ops w =
     (if estimate_accepted (demo_lambda_loop ops 58982 0 (kalman_gravity_init ops w))
      then Inr (demo_lambda_loop ops 58982 0 (kalman_gravity_init ops w))
      else Inl AssertionFailed)"
  by (simp add: kalman_gravity_demo_lambda_def demo_lambda_constant_def F16_lambda)

lemma state_demo_lambda_pinned:
  "(kf (demo_lambda_loop ops 58982 0 (kalman_gravity_init ops w)),
    kfm (demo_lambda_loop ops 58982 0 (kalman_gravity_init ops w))) =
     fold (\<lambda>i s. kalman_correct ops (kalman_predict_tuned ops (fst s) 58982)
                    (take_measurement i (snd s)))
       [0..<15] (kf (kalman_gravity_init ops w), kfm (kalman_gravity_init ops w))"
proof -
  have "tuned_cycle ops 58982 =
        (\<lambda>i s. kalman_correct ops (kalman_predict_tuned ops (fst s) 58982)
                  (take_measurement i (snd s)))"
    by (intro ext) (simp add: tuned_cycle_def)
  with state_demo_lambda_loop [of ops 58982 "kalman_gravity_init ops w"]
  show ?thesis by simp
qed

lemma main_pinned:
  "main ops w =
     (case kalman_gravity_demo ops w of
        Inl a \<Rightarrow> Inl a
      | Inr w1 \<Rightarrow>
          if estimate_accepted (demo_lambda_loop ops 58982 0 (kalman_gravity_init ops w1))
          then Inr (demo_lambda_loop ops 58982 0 (kalman_gravity_init ops w1))
          else Inl AssertionFailed)"
  by (simp add: main_def kalman_gravity_demo_lambda_pinned split: sum.split)

text \<open>
  Claim C8. The constant \<^verbatim>\<open>lambda\<close> of \<^verbatim>\<open>kalman_gravity_demo_lambda\<close> is
  \<^verbatim>\<open>F16(0.9)\<close>, the scalar 58982, which is greater than 0 and at most \<^verbatim>\<open>fix16_one\<close>.
  Whatever the filter library does: the tuned predict call of the program hands the
  library the filter and the \<open>lambda\<close> of its loop; \<^verbatim>\<open>kalman_gravity_demo_lambda\<close> is
  its loop run with 58982, followed by the assertion, and the structures after the
  loop are the result of 15 cycles in which \<^verbatim>\<open>kalman_predict_tuned\<close> is applied
  with 58982; \<^verbatim>\<open>main\<close> is the first demo followed by that. \<^verbatim>\<open>kalman_gravity_demo\<close>
  does not depend on \<^verbatim>\<open>kalman_predict_tuned\<close> at all, and
  \<^verbatim>\<open>kalman_gravity_demo_lambda\<close> and \<^verbatim>\<open>main\<close> depend on it only through its values at
  \<open>lambda = 58982\<close>: what the library does for any other \<open>lambda\<close>, in or out of the
  range, has no effect on the program.
\<close>

theorem demo_lambda_in_range:
  "demo_lambda_constant = F16 0.9 \<and>
   F16 0.9 = 58982 \<and> 0 < F16 0.9 \<and> F16 0.9 \<le> fix16_one \<and>
   kf (call_predict_tuned ops lambda w) = kalman_predict_tuned ops (kf w) lambda \<and>
   kalman_gravity_demo_lambda ops w =
     (if estimate_accepted (demo_lambda_loop ops 58982 0 (kalman_gravity_init ops w))
      then Inr (demo_lambda_loop ops 58982 0 (kalman_gravity_init ops w))
      else Inl AssertionFailed) \<and>
   (kf (demo_lambda_loop ops 58982 0 (kalman_gravity_init ops w)),
    kfm (demo_lambda_loop ops 58982 0 (kalman_gravity_init ops w))) =
     fold (\<lambda>i s. kalman_correct ops (kalman_predict_tuned ops (fst s) 58982)
                    (take_measurement i (snd s)))
       [0..<15] (kf (kalman_gravity_init ops w), kfm (kalman_gravity_init ops w)) \<and>
   main ops w =
     (case kalman_gravity_demo ops w of
        Inl a \<Rightarrow> Inl a
      | Inr w1 \<Rightarrow>
          if estimate_accepted (demo_lambda_loop ops 58982 0 (kalman_gravity_init ops w1))
          then Inr (demo_lambda_loop ops 58982 0 (kalman_gravity_init ops w1))
          else Inl AssertionFailed) \<and>
   kalman_gravity_demo (ops\<lparr>kalman_predict_tuned := f\<rparr>) w = kalman_gravity_demo ops w \<and>
   ((\<forall>k. f k 58982 = kalman_predict_tuned ops k 58982) \<longrightarrow>
      kalman_gravity_demo_lambda (ops\<lparr>kalman_predict_tuned := f\<rparr>) w =
        kalman_gravity_demo_lambda ops w \<and>
      main (ops\<lparr>kalman_predict_tuned := f\<rparr>) w = main ops w)"
proof (intro conjI impI)
  show "demo_lambda_constant = F16 0.9"
    by (rule demo_lambda_constant_def)
  show "F16 0.9 = 58982" and "0 < F16 0.9" and "F16 0.9 \<le> fix16_one"
    using F16_lambda_range by simp_all
  show "kf (call_predict_tuned ops lambda w) = kalman_predict_tuned ops (kf w) lambda"
    by (rule kf_call_predict_tuned)
  show "kalman_gravity_demo_lambda ops w =
     (if estimate_accepted (demo_lambda_loop ops 58982 0 (kalman_gravity_init ops w))
      then Inr (demo_lambda_loop ops 58982 0 (kalman_gravity_init ops w))
      else Inl AssertionFailed)"
    by (rule kalman_gravity_demo_lambda_pinned)
  show "(kf (demo_lambda_loop ops 58982 0 (kalman_gravity_init ops w)),
    kfm (demo_lambda_loop ops 58982 0 (kalman_gravity_init ops w))) =
     fold (\<lambda>i s. kalman_correct ops (kalman_predict_tuned ops (fst s) 58982)
                    (take_measurement i (snd s)))
       [0..<15] (kf (kalman_gravity_init ops w), kfm (kalman_gravity_init ops w))"
    by (rule state_demo_lambda_pinned)
  show "main ops w =
     (case kalman_gravity_demo ops w of
        Inl a \<Rightarrow> Inl a
      | Inr w1 \<Rightarrow>
          if estimate_accepted (demo_lambda_loop ops 58982 0 (kalman_gravity_init ops w1))
          then Inr (demo_lambda_loop ops 58982 0 (kalman_gravity_init ops w1))
          else Inl AssertionFailed)"
    by (rule main_pinned)
  show "kalman_gravity_demo (ops\<lparr>kalman_predict_tuned := f\<rparr>) w = kalman_gravity_demo ops w"
    by (rule kalman_gravity_demo_without_tuned)
next
  assume a: "\<forall>k. f k 58982 = kalman_predict_tuned ops k 58982"
  show "kalman_gravity_demo_lambda (ops\<lparr>kalman_predict_tuned := f\<rparr>) w =
        kalman_gravity_demo_lambda ops w"
    by (rule kalman_gravity_demo_lambda_at_lambda [of f ops, OF a])
  show "main (ops\<lparr>kalman_predict_tuned := f\<rparr>) w = main ops w"
    by (rule main_at_lambda [of f ops, OF a])
qed

text \<open>Over the filter core, replace the tuned predict by one that leaves the filter as
  it is for every \<open>lambda\<close> other than 58982: the program is the same.\<close>

theorem demo_lambda_in_range_witness:
  "(\<forall>k. (\<lambda>k l. if l = 58982 then filter_predict_tuned k l else k) k 58982 =
         kalman_predict_tuned (spec_ops 3) k 58982) \<and>
   kalman_gravity_demo_lambda
     ((spec_ops 3)\<lparr>kalman_predict_tuned :=
         \<lambda>k l. if l = 58982 then filter_predict_tuned k l else k\<rparr>) static_world =
     kalman_gravity_demo_lambda (spec_ops 3) static_world \<and>
   main ((spec_ops 3)\<lparr>kalman_predict_tuned :=
         \<lambda>k l. if l = 58982 then filter_predict_tuned k l else k\<rparr>) static_world =
     main (spec_ops 3) static_world"
proof -
  have a: "\<forall>k. (\<lambda>k l. if l = 58982 then filter_predict_tuned k l else k) k 58982 =
         kalman_predict_tuned (spec_ops 3) k 58982"
    by (simp add: spec_ops_def)
  from demo_lambda_in_range [where ops = "spec_ops 3" and w = static_world
      and f = "\<lambda>k l. if l = 58982 then filter_predict_tuned k l else k"] a
  show ?thesis by simp
qed

subsection \<open>The configured matrices are not written by the loops\<close>

lemma configuration_write_z: "configuration (write_z v w) = configuration w"
  by (simp add: configuration_def write_z_def)

lemma configuration_call_predict:
  "keeps_configuration ops \<Longrightarrow> configuration (call_predict ops w) = configuration w"
  by (simp add: configuration_def call_predict_def keeps_configuration_def)

lemma configuration_call_predict_tuned:
  "keeps_configuration ops \<Longrightarrow> configuration (call_predict_tuned ops l w) = configuration w"
  by (simp add: configuration_def call_predict_tuned_def keeps_configuration_def)

lemma configuration_call_correct:
  assumes "keeps_configuration ops"
  shows "configuration (call_correct ops w) = configuration w"
proof -
  obtain k' m' where c: "kalman_correct ops (kf w) (kfm w) = (k', m')"
    by (cases "kalman_correct ops (kf w) (kfm w)")
  from assms have "state_transition (fst (kalman_correct ops (kf w) (kfm w))) = state_transition (kf w)"
    and "measurement_transformation (snd (kalman_correct ops (kf w) (kfm w))) =
           measurement_transformation (kfm w)"
    and "process_noise (snd (kalman_correct ops (kf w) (kfm w))) = process_noise (kfm w)"
    by (simp_all add: keeps_configuration_def)
  with c show ?thesis
    by (simp add: configuration_def call_correct_def)
qed

lemma configuration_demo_body:
  "keeps_configuration ops \<Longrightarrow> configuration (demo_body ops i w) = configuration w"
  by (simp add: demo_body_def Let_def configuration_call_correct configuration_write_z
      configuration_call_predict)

lemma configuration_demo_lambda_body:
  "keeps_configuration ops \<Longrightarrow> configuration (demo_lambda_body ops l i w) = configuration w"
  by (simp add: demo_lambda_body_def Let_def configuration_call_correct configuration_write_z
      configuration_call_predict_tuned)

lemma configuration_fold_demo_body:
  "keeps_configuration ops \<Longrightarrow> configuration (fold (demo_body ops) js w) = configuration w"
  by (induction js arbitrary: w) (simp_all add: configuration_demo_body)

lemma configuration_fold_demo_lambda_body:
  "keeps_configuration ops \<Longrightarrow>
     configuration (fold (demo_lambda_body ops l) js w) = configuration w"
  by (induction js arbitrary: w) (simp_all add: configuration_demo_lambda_body)

lemma state_transition_void_correct:
  "state_transition (fst (void_correct k m)) = state_transition k"
  by (cases "kalman_gain k m") (simp_all add: void_correct_def measurement_correct_def)

lemma spec_ops_keeps_configuration: "keeps_configuration (spec_ops mx)"
  by (simp add: keeps_configuration_def spec_ops_def filter_predict_def
      filter_predict_tuned_def state_transition_void_correct)
    (simp add: void_correct_def)

text \<open>
  Claim C9. The one write of the driver in a loop body, to \<^verbatim>\<open>z[0][0]\<close>, leaves the
  filter structure and the matrices \<open>A\<close>, \<open>H\<close> and \<open>R\<close> as they are. For a filter
  library whose predict calls leave \<open>A\<close> alone and whose correct call leaves \<open>A\<close>,
  \<open>H\<close> and \<open>R\<close> alone, no statement of a loop body, no loop body and neither loop,
  from any index on, changes \<open>A\<close>, \<open>H\<close> or \<open>R\<close>.
\<close>

theorem configuration_constant:
  "kf (write_z v w) = kf w \<and>
   configuration (write_z v w) = configuration w \<and>
   (keeps_configuration ops \<longrightarrow>
      configuration (call_predict ops w) = configuration w \<and>
      configuration (call_predict_tuned ops lambda w) = configuration w \<and>
      configuration (call_correct ops w) = configuration w \<and>
      configuration (demo_body ops i w) = configuration w \<and>
      configuration (demo_lambda_body ops lambda i w) = configuration w \<and>
      configuration (demo_loop ops i w) = configuration w \<and>
      configuration (demo_lambda_loop ops lambda i w) = configuration w)"
  by (simp add: configuration_call_predict configuration_call_predict_tuned
      configuration_write_z configuration_call_correct demo_loop_fold demo_lambda_loop_fold
      configuration_demo_body configuration_demo_lambda_body
      configuration_fold_demo_body configuration_fold_demo_lambda_body)
    (simp add: write_z_def)

text \<open>The core of the specification is such a library; both demos keep the matrices that
  \<^verbatim>\<open>kalman_gravity_init\<close> configured.\<close>

theorem configuration_constant_witness:
  "keeps_configuration (spec_ops 3) \<and>
   configuration (demo_loop (spec_ops 3) 0 (kalman_gravity_init (spec_ops 3) static_world)) =
     configuration (kalman_gravity_init (spec_ops 3) static_world) \<and>
   configuration (demo_lambda_loop (spec_ops 3) demo_lambda_constant 0
       (kalman_gravity_init (spec_ops 3) static_world)) =
     configuration (kalman_gravity_init (spec_ops 3) static_world)"
  using configuration_constant [of _ _ "spec_ops 3"] spec_ops_keeps_configuration
  by simp

subsection \<open>Symmetry of the covariance\<close>

lemma covariance_after_init:
  "map (\<lambda>i. map (data (system_covariance (kf (kalman_gravity_init ops w))) i) [0, 1, 2]) [0, 1, 2] =
     [[fix16_from_float (1 / 2), 0, 0], [0, fix16_one, 0], [0, 0, fix16_one]]"
  by (simp add: kalman_gravity_init_def Let_def data_matrix_set_symmetric)

lemma symmetric_after_init:
  "symmetric_upto 3 (system_covariance (kf (kalman_gravity_init ops w)))"
proof -
  have c: "i = 0 \<or> i = 1 \<or> i = 2" if "i < 3" for i :: nat
    using that by arith
  show ?thesis
    unfolding symmetric_upto_def
  proof (intro allI impI)
    fix i j :: nat
    assume "i < 3" "j < 3"
    with c [of i] c [of j] covariance_after_init [of ops w]
    show "data (system_covariance (kf (kalman_gravity_init ops w))) i j =
          data (system_covariance (kf (kalman_gravity_init ops w))) j i"
      by auto
  qed
qed

lemma data_mf16_make:
  "data (mf16_make r c xss) i j = (if i < r \<and> j < c then xss ! i ! j else 0)"
  by (simp add: mf16_make_def)

lemma rows_mf16_make [simp]: "rows (mf16_make r c xss) = r"
  and columns_mf16_make [simp]: "columns (mf16_make r c xss) = c"
  by (simp_all add: mf16_make_def)

lemma mirror_entry_commute: "mirror_entry m i j = mirror_entry m j i"
  by (simp add: mirror_entry_def)

lemma rows_mf16_mirror [simp]: "rows (mf16_mirror m) = rows m"
  by (simp add: mf16_mirror_def)

lemma rows_mf16_sub [simp]: "rows (mf16_sub a b) = rows a"
  and columns_mf16_sub [simp]: "columns (mf16_sub a b) = columns a"
  by (simp_all add: mf16_sub_def)

subsection \<open>The modelled primitives\<close>

text \<open>\<open>isqrt\<close> is the integer square root on the range of the scalar, and the solve
  primitive solves a system with two unknowns exactly where the solution is
  representable.\<close>

lemma sqrt_bits_bounds:
  assumes "r * r \<le> n" and "n < (r + 2 ^ k) * (r + 2 ^ k)"
  shows "sqrt_bits (map ((^) 2) (rev [0..<k])) n r * sqrt_bits (map ((^) 2) (rev [0..<k])) n r \<le> n \<and>
         n < (sqrt_bits (map ((^) 2) (rev [0..<k])) n r + 1) *
             (sqrt_bits (map ((^) 2) (rev [0..<k])) n r + 1)"
  using assms
proof (induction k arbitrary: r)
  case 0
  then show ?case by simp
next
  case (Suc k)
  let ?r = "if (r + 2 ^ k) * (r + 2 ^ k) \<le> n then r + 2 ^ k else r"
  have step: "sqrt_bits (map ((^) 2) (rev [0..<Suc k])) n r =
              sqrt_bits (map ((^) 2) (rev [0..<k])) n ?r"
    by simp
  have "?r * ?r \<le> n"
    using Suc.prems(1) by simp
  moreover have "n < (?r + 2 ^ k) * (?r + 2 ^ k)"
    using Suc.prems(2) by (simp add: algebra_simps)
  ultimately show ?case
    unfolding step by (rule Suc.IH)
qed

lemma isqrt_bounds:
  assumes "0 \<le> n" and "n < 2 ^ 48"
  shows "isqrt n * isqrt n \<le> n \<and> n < (isqrt n + 1) * (isqrt n + 1)"
  unfolding isqrt_def using assms by (intro sqrt_bits_bounds) simp_all

lemma solve_example:
  "map_option mf16_rows
     (mf16_solve (mf16_make 2 2 [[4 * 65536, 2 * 65536], [2 * 65536, 3 * 65536]])
        (mf16_make 2 2 [[8 * 65536, 8 * 65536], [4 * 65536, 2 * 65536]])) =
   Some [[65536, 2 * 65536], [65536, 0]]"
  by code_simp

subsection \<open>The demos over the filter core\<close>

lemma observe_data:
  assumes "observe m = (r, c, xss)" and "i < r" and "j < c"
  shows "data m i j = xss ! i ! j"
  using assms by (auto simp add: observe_def mf16_rows_def mf16_row_def)

lemma void_filter_initialize_guarded:
  "size_guard mx \<Longrightarrow>
     void_filter_initialize mx k KALMAN_NUM_STATES KALMAN_NUM_INPUTS =
     void_filter_initialize 3 k' KALMAN_NUM_STATES KALMAN_NUM_INPUTS"
  by (simp add: void_filter_initialize_def filter_initialize_def size_guard_def
      KALMAN_NUM_STATES_def KALMAN_NUM_INPUTS_def KALMAN_NUM_MEASUREMENTS_def)

lemma void_measurement_initialize_guarded:
  "size_guard mx \<Longrightarrow>
     void_measurement_initialize mx m KALMAN_NUM_STATES KALMAN_NUM_MEASUREMENTS =
     void_measurement_initialize 3 m' KALMAN_NUM_STATES KALMAN_NUM_MEASUREMENTS"
  by (simp add: void_measurement_initialize_def measurement_initialize_def size_guard_def
      KALMAN_NUM_STATES_def KALMAN_NUM_INPUTS_def KALMAN_NUM_MEASUREMENTS_def)

lemma init_over_core:
  assumes "size_guard mx"
  shows "(kf (kalman_gravity_init (spec_ops mx) w), kfm (kalman_gravity_init (spec_ops mx) w)) =
         gravity_start"
  using void_filter_initialize_guarded [OF assms, of "kf w" "kf static_world"]
    void_measurement_initialize_guarded [OF assms, of "kfm w" "kfm static_world"]
  by (simp add: gravity_start_def kalman_gravity_init_def Let_def spec_ops_def)

lemma demo_body_over_core:
  "(kf (demo_body (spec_ops mx) i w), kfm (demo_body (spec_ops mx) i w)) =
     void_correct (filter_predict (kf w)) (take_measurement i (kfm w))"
  by (simp add: demo_body_def Let_def call_predict_def write_z_def call_correct_def
      spec_ops_def take_measurement_def void_correct_def)

lemma demo_lambda_body_over_core:
  "(kf (demo_lambda_body (spec_ops mx) l i w), kfm (demo_lambda_body (spec_ops mx) l i w)) =
     void_correct (filter_predict_tuned (kf w) l) (take_measurement i (kfm w))"
  by (simp add: demo_lambda_body_def Let_def call_predict_tuned_def write_z_def
      call_correct_def spec_ops_def take_measurement_def void_correct_def)

lemma fold_demo_body_over_core:
  "(kf (fold (demo_body (spec_ops mx)) js w), kfm (fold (demo_body (spec_ops mx)) js w)) =
     spec_cycles js (kf w, kfm w)"
proof (induction js arbitrary: w)
  case Nil
  show ?case by simp
next
  case (Cons i js)
  from Cons [of "demo_body (spec_ops mx) i w"] demo_body_over_core [of mx i w]
  show ?case by simp
qed

lemma fold_demo_lambda_body_over_core:
  "(kf (fold (demo_lambda_body (spec_ops mx) l) js w),
    kfm (fold (demo_lambda_body (spec_ops mx) l) js w)) =
     spec_cycles_tuned l js (kf w, kfm w)"
proof (induction js arbitrary: w)
  case Nil
  show ?case by simp
next
  case (Cons i js)
  from Cons [of "demo_lambda_body (spec_ops mx) l i w"] demo_lambda_body_over_core [of mx l i w]
  show ?case by simp
qed

lemma demo_loop_over_core:
  assumes "size_guard mx"
  shows "kf (demo_loop (spec_ops mx) 0 (kalman_gravity_init (spec_ops mx) w)) =
         fst (spec_cycles [0..<15] gravity_start)"
  using fold_demo_body_over_core [of mx "[0..<15]" "kalman_gravity_init (spec_ops mx) w"]
    init_over_core [OF assms, of w]
  by (simp add: demo_loop_fold MEAS_COUNT_def prod_eq_iff)

lemma demo_lambda_loop_over_core:
  assumes "size_guard mx"
  shows "kf (demo_lambda_loop (spec_ops mx) l 0 (kalman_gravity_init (spec_ops mx) w)) =
         fst (spec_cycles_tuned l [0..<15] gravity_start)"
  using fold_demo_lambda_body_over_core [of mx l "[0..<15]" "kalman_gravity_init (spec_ops mx) w"]
    init_over_core [OF assms, of w]
  by (simp add: demo_lambda_loop_fold MEAS_COUNT_def prod_eq_iff)

lemma plain_run:
  "observe (state_vector (fst (spec_cycles [0..<15] gravity_start))) =
     (3, 1, [[72340975], [9642873], [642651]])"
  by code_simp

lemma tuned_run:
  "observe (state_vector (fst (spec_cycles_tuned demo_lambda_constant [0..<15] gravity_start))) =
     (3, 1, [[72334133], [9638976], [642052]])"
  by code_simp

lemma accepted_642651: "9.7 < fix16_to_float 642651 \<and> fix16_to_float 642651 < 10"
  by (simp add: fix16_to_float_def fix16_one_def)

lemma accepted_642052: "9.7 < fix16_to_float 642052 \<and> fix16_to_float 642052 < 10"
  by (simp add: fix16_to_float_def fix16_one_def)

text \<open>
  Claim C1. Over the filter core, in a build that passes the size guard,
  \<^verbatim>\<open>kalman_gravity_demo\<close> runs its 15 cycles from any prior state of the structures,
  reads the estimate \<open>642651\<close> (9.80608 as a float, which represents it exactly) from
  \<^verbatim>\<open>x->data[2][0]\<close>, and passes its assertion: the value is strictly between 9.7 and
  10.
\<close>

theorem demo_estimate:
  assumes "size_guard mx"
  shows "(let w' = demo_loop (spec_ops mx) 0 (kalman_gravity_init (spec_ops mx) w);
              g = data (state_vector (kf w')) 2 0
          in kalman_gravity_demo (spec_ops mx) w = Inr w' \<and> g = 642651 \<and>
             9.7 < fix16_to_float g \<and> fix16_to_float g < 10)"
proof -
  have "data (state_vector (fst (spec_cycles [0..<15] gravity_start))) 2 0 = 642651"
    using observe_data [OF plain_run, of 2 0] by simp
  with demo_loop_over_core [OF assms, of w] accepted_642651 show ?thesis
    by (simp add: kalman_gravity_demo_def estimate_accepted_def Let_def)
qed

text \<open>The run from the program start, with the capacity 3.\<close>

theorem demo_estimate_witness:
  "size_guard 3 \<and>
   kalman_gravity_demo (spec_ops 3) static_world =
     Inr (demo_loop (spec_ops 3) 0 (kalman_gravity_init (spec_ops 3) static_world)) \<and>
   data (state_vector (kf (demo_loop (spec_ops 3) 0
     (kalman_gravity_init (spec_ops 3) static_world)))) 2 0 = 642651"
proof -
  have g: "size_guard 3"
    by (simp add: size_guard_def KALMAN_NUM_STATES_def KALMAN_NUM_INPUTS_def
        KALMAN_NUM_MEASUREMENTS_def)
  from demo_estimate [OF g, of static_world] g show ?thesis
    by (simp add: Let_def)
qed

text \<open>
  Claim C10. Over the filter core, in a build that passes the size guard,
  \<^verbatim>\<open>kalman_gravity_demo_lambda\<close> initialises again, runs its 15 cycles of tuned
  predict with \<open>lambda = F16 0.9\<close> and correct, reads the estimate \<open>642052\<close> (9.79694),
  and passes its assertion: the value is strictly between 9.7 and 10.
\<close>

theorem demo_lambda_estimate:
  assumes "size_guard mx"
  shows "(let w' = demo_lambda_loop (spec_ops mx) demo_lambda_constant 0
                     (kalman_gravity_init (spec_ops mx) w);
              g = data (state_vector (kf w')) 2 0
          in kalman_gravity_demo_lambda (spec_ops mx) w = Inr w' \<and> g = 642052 \<and>
             9.7 < fix16_to_float g \<and> fix16_to_float g < 10)"
proof -
  have "data (state_vector (fst (spec_cycles_tuned demo_lambda_constant [0..<15]
          gravity_start))) 2 0 = 642052"
    using observe_data [OF tuned_run, of 2 0] by simp
  with demo_lambda_loop_over_core [OF assms, of demo_lambda_constant w] accepted_642052
  show ?thesis
    by (simp add: kalman_gravity_demo_lambda_def estimate_accepted_def Let_def)
qed

text \<open>The run of the second demo from the program start, with the capacity 3.\<close>

theorem demo_lambda_estimate_witness:
  "size_guard 3 \<and>
   kalman_gravity_demo_lambda (spec_ops 3) static_world =
     Inr (demo_lambda_loop (spec_ops 3) demo_lambda_constant 0
            (kalman_gravity_init (spec_ops 3) static_world)) \<and>
   data (state_vector (kf (demo_lambda_loop (spec_ops 3) demo_lambda_constant 0
     (kalman_gravity_init (spec_ops 3) static_world)))) 2 0 = 642052"
proof -
  have g: "size_guard 3"
    by (simp add: size_guard_def KALMAN_NUM_STATES_def KALMAN_NUM_INPUTS_def
        KALMAN_NUM_MEASUREMENTS_def)
  from demo_lambda_estimate [OF g, of static_world] g show ?thesis
    by (simp add: Let_def)
qed

subsection \<open>Predict, correct and the symmetry of the covariance\<close>

lemma columns_mf16_mirror [simp]: "columns (mf16_mirror m) = columns m"
  by (simp add: mf16_mirror_def)

lemma symmetric_square_mirror:
  assumes "columns m = rows m"
  shows "symmetric_upto n (mf16_mirror m)"
  using assms
  by (simp add: symmetric_upto_def mf16_mirror_def data_mf16_make mirror_row_def
      mirror_entry_commute)

lemma rows_mf16_mul [simp]: "rows (mf16_mul a b) = rows a"
  and columns_mf16_mul [simp]: "columns (mf16_mul a b) = columns b"
  by (simp_all add: mf16_mul_def)

lemma rows_mf16_transpose [simp]: "rows (mf16_transpose a) = columns a"
  and columns_mf16_transpose [simp]: "columns (mf16_transpose a) = rows a"
  by (simp_all add: mf16_transpose_def)

lemma rows_mf16_add [simp]: "rows (mf16_add a b) = rows a"
  and columns_mf16_add [simp]: "columns (mf16_add a b) = columns a"
  by (simp_all add: mf16_add_def)

lemma rows_mf16_mul_s [simp]: "rows (mf16_mul_s a s) = rows a"
  and columns_mf16_mul_s [simp]: "columns (mf16_mul_s a s) = columns a"
  by (simp_all add: mf16_mul_s_def)

lemma data_mf16_mul_s:
  "data (mf16_mul_s a s) i j =
     (if i < rows a \<and> j < columns a then fix16_mul s (data a i j) else 0)"
  by (simp add: mf16_mul_s_def data_mf16_make mf16_rows_def mf16_row_def)

lemma symmetric_square_mul_s:
  assumes "columns a = rows a" and "\<And>n. symmetric_upto n a"
  shows "symmetric_upto n (mf16_mul_s a s)"
proof -
  have "data a i j = data a j i" for i j
    using assms(2) [of "Suc (max i j)"] by (simp add: symmetric_upto_def)
  with assms(1) show ?thesis
    by (simp add: symmetric_upto_def data_mf16_mul_s)
qed

lemma predict_P_size:
  "rows (predict_P k) = rows (state_transition k) \<and>
   columns (predict_P k) = rows (state_transition k)"
  by (simp add: predict_P_def)

lemma symmetric_predict_P: "symmetric_upto n (predict_P k)"
  unfolding predict_P_def by (rule symmetric_square_mirror) simp

lemma symmetric_after_predict: "symmetric_upto n (system_covariance (filter_predict k))"
  by (simp add: filter_predict_def symmetric_predict_P)

lemma symmetric_after_predict_tuned:
  "symmetric_upto n (system_covariance (filter_predict_tuned k l))"
  by (simp add: filter_predict_tuned_def symmetric_square_mul_s predict_P_size
      symmetric_predict_P)

lemma corrected_square:
  assumes "measurement_correct k m = Inr k'"
    and "columns (system_covariance k) = rows (system_covariance k)"
  shows "symmetric_upto n (system_covariance k') \<and>
         rows (system_covariance k') = rows (system_covariance k) \<and>
         columns (system_covariance k') = rows (system_covariance k) \<and>
         state_transition k' = state_transition k"
proof (cases "kalman_gain k m")
  case None
  with assms show ?thesis
    by (simp add: measurement_correct_def)
next
  case (Some K)
  with assms have k': "k' = k\<lparr>state_vector := corrected_x k m K,
      system_covariance := corrected_P k m K\<rparr>"
    by (auto simp add: measurement_correct_def)
  from assms(2) have "symmetric_upto n (corrected_P k m K)"
    unfolding corrected_P_def by (intro symmetric_square_mirror) simp
  with assms(2) show ?thesis
    by (simp add: k' corrected_P_def)
qed

lemma symmetric_after_void_correct:
  assumes "columns (system_covariance k) = rows (system_covariance k)"
    and "symmetric_upto n (system_covariance k)"
  shows "symmetric_upto n (system_covariance (fst (void_correct k m)))"
proof (cases "measurement_correct k m")
  case (Inl e)
  with assms(2) show ?thesis
    by (simp add: void_correct_def)
next
  case (Inr k')
  with corrected_square [OF Inr assms(1), of n] show ?thesis
    by (simp add: void_correct_def)
qed

lemma start_size:
  "rows (state_transition (fst gravity_start)) = 3 \<and>
   rows (system_covariance (fst gravity_start)) = 3 \<and>
   columns (system_covariance (fst gravity_start)) = 3"
  by (simp add: gravity_start_def kalman_gravity_init_def Let_def spec_ops_def
      void_filter_initialize_def filter_initialize_def mf16_zero_def matrix_set_def
      matrix_set_symmetric_def KALMAN_NUM_STATES_def KALMAN_NUM_INPUTS_def)

lemma symmetric_filter_init:
  assumes "size_guard mx"
  shows "symmetric_filter (kf (kalman_gravity_init (spec_ops mx) w))"
proof -
  from init_over_core [OF assms, of w]
  have "kf (kalman_gravity_init (spec_ops mx) w) = fst gravity_start"
    by (simp add: prod_eq_iff)
  with start_size symmetric_after_init [of "spec_ops mx" w] show ?thesis
    by (simp add: symmetric_filter_def)
qed

lemma symmetric_filter_predict:
  assumes "symmetric_filter k"
  shows "symmetric_filter (filter_predict k)"
  using assms symmetric_after_predict [of 3 k] predict_P_size [of k]
  by (simp add: symmetric_filter_def filter_predict_def)

lemma symmetric_filter_predict_tuned:
  assumes "symmetric_filter k"
  shows "symmetric_filter (filter_predict_tuned k l)"
  using assms symmetric_after_predict_tuned [of 3 k l] predict_P_size [of k]
  by (simp add: symmetric_filter_def filter_predict_tuned_def)

lemma symmetric_filter_void_correct:
  assumes "symmetric_filter k"
  shows "symmetric_filter (fst (void_correct k m))"
proof (cases "measurement_correct k m")
  case (Inl e)
  with assms show ?thesis
    by (simp add: void_correct_def)
next
  case (Inr k')
  from assms have "columns (system_covariance k) = rows (system_covariance k)"
    by (simp add: symmetric_filter_def)
  from corrected_square [OF Inr this, of 3] assms Inr show ?thesis
    by (simp add: void_correct_def symmetric_filter_def)
qed

lemma kf_call_predict_over_core: "kf (call_predict (spec_ops mx) w) = filter_predict (kf w)"
  by (simp add: call_predict_def spec_ops_def)

lemma kf_call_predict_tuned_over_core:
  "kf (call_predict_tuned (spec_ops mx) l w) = filter_predict_tuned (kf w) l"
  by (simp add: call_predict_tuned_def spec_ops_def)

lemma symmetric_filter_demo_body:
  assumes "symmetric_filter (kf w)"
  shows "symmetric_filter (kf (demo_body (spec_ops mx) i w))"
proof -
  from demo_body_over_core [of mx i w]
  have "kf (demo_body (spec_ops mx) i w) =
        fst (void_correct (filter_predict (kf w)) (take_measurement i (kfm w)))"
    by (simp add: prod_eq_iff)
  with symmetric_filter_void_correct [OF symmetric_filter_predict [OF assms]]
  show ?thesis by simp
qed

lemma symmetric_filter_demo_lambda_body:
  assumes "symmetric_filter (kf w)"
  shows "symmetric_filter (kf (demo_lambda_body (spec_ops mx) l i w))"
proof -
  from demo_lambda_body_over_core [of mx l i w]
  have "kf (demo_lambda_body (spec_ops mx) l i w) =
        fst (void_correct (filter_predict_tuned (kf w) l) (take_measurement i (kfm w)))"
    by (simp add: prod_eq_iff)
  with symmetric_filter_void_correct [OF symmetric_filter_predict_tuned [OF assms]]
  show ?thesis by simp
qed

lemma symmetric_filter_fold_demo_body:
  assumes "symmetric_filter (kf w)"
  shows "symmetric_filter (kf (fold (demo_body (spec_ops mx)) js w))"
  using assms
  by (induction js arbitrary: w) (simp_all add: symmetric_filter_demo_body)

lemma symmetric_filter_fold_demo_lambda_body:
  assumes "symmetric_filter (kf w)"
  shows "symmetric_filter (kf (fold (demo_lambda_body (spec_ops mx) l) js w))"
  using assms
  by (induction js arbitrary: w) (simp_all add: symmetric_filter_demo_lambda_body)

lemma symmetric_demo_cycles:
  assumes "size_guard mx"
  shows "symmetric_filter (kf (fold (demo_body (spec_ops mx)) js
           (kalman_gravity_init (spec_ops mx) w)))"
    and "symmetric_filter (kf (call_predict (spec_ops mx)
           (fold (demo_body (spec_ops mx)) js (kalman_gravity_init (spec_ops mx) w))))"
    and "symmetric_filter (kf (fold (demo_lambda_body (spec_ops mx) l) js
           (kalman_gravity_init (spec_ops mx) w)))"
    and "symmetric_filter (kf (call_predict_tuned (spec_ops mx) l
           (fold (demo_lambda_body (spec_ops mx) l) js (kalman_gravity_init (spec_ops mx) w))))"
  using symmetric_filter_init [OF assms, of w]
  by (simp_all add: symmetric_filter_fold_demo_body symmetric_filter_fold_demo_lambda_body
      kf_call_predict_over_core kf_call_predict_tuned_over_core symmetric_filter_predict
      symmetric_filter_predict_tuned)

text \<open>
  Claim C2. \<^verbatim>\<open>matrix_set_symmetric\<close> writes the same value to an entry and to its
  mirror, and \<open>P\<close> is symmetric in the 3x3 range after \<^verbatim>\<open>kalman_gravity_init\<close>,
  whatever the library's initialisation did, because each write of the function to
  \<open>P\<close> is a \<^verbatim>\<open>matrix_set_symmetric\<close> and together they cover the range. Over the filter
  core, \<open>P\<close> is symmetric after every predict and every tuned predict, after every
  successful correct on a square \<open>P\<close>, and after a correct on a square symmetric \<open>P\<close>
  whether it succeeds or not. In a build that passes the size guard, in the run of
  either demo over the core, from any prior state of the structures: after
  \<^verbatim>\<open>kalman_gravity_init\<close> and any number of iterations (the loops run them at the
  indices \<open>0, 1, ...\<close>), and after the predict call that follows, \<open>A\<close> has three rows
  and \<open>P\<close> is of size 3x3 and symmetric.
\<close>

theorem covariance_symmetry:
  "data (matrix_set_symmetric matrix r c v) r c = v \<and>
   data (matrix_set_symmetric matrix r c v) c r = v \<and>
   symmetric_upto 3 (system_covariance (kf (kalman_gravity_init ops w))) \<and>
   symmetric_upto n (system_covariance (filter_predict k)) \<and>
   symmetric_upto n (system_covariance (filter_predict_tuned k l)) \<and>
   (measurement_correct k m = Inr k' \<longrightarrow>
    columns (system_covariance k) = rows (system_covariance k) \<longrightarrow>
    symmetric_upto n (system_covariance k')) \<and>
   (columns (system_covariance k) = rows (system_covariance k) \<longrightarrow>
    symmetric_upto n (system_covariance k) \<longrightarrow>
    symmetric_upto n (system_covariance (fst (kalman_correct (spec_ops mx) k m)))) \<and>
   (size_guard mx \<longrightarrow>
    symmetric_filter (kf (fold (demo_body (spec_ops mx)) js
      (kalman_gravity_init (spec_ops mx) w))) \<and>
    symmetric_filter (kf (call_predict (spec_ops mx)
      (fold (demo_body (spec_ops mx)) js (kalman_gravity_init (spec_ops mx) w)))) \<and>
    symmetric_filter (kf (fold (demo_lambda_body (spec_ops mx) l) js
      (kalman_gravity_init (spec_ops mx) w))) \<and>
    symmetric_filter (kf (call_predict_tuned (spec_ops mx) l
      (fold (demo_lambda_body (spec_ops mx) l) js (kalman_gravity_init (spec_ops mx) w)))))"
proof (intro conjI impI)
  show "data (matrix_set_symmetric matrix r c v) r c = v"
    and "data (matrix_set_symmetric matrix r c v) c r = v"
    by (simp_all add: data_matrix_set_symmetric)
  show "symmetric_upto 3 (system_covariance (kf (kalman_gravity_init ops w)))"
    by (rule symmetric_after_init)
  show "symmetric_upto n (system_covariance (filter_predict k))"
    by (rule symmetric_after_predict)
  show "symmetric_upto n (system_covariance (filter_predict_tuned k l))"
    by (rule symmetric_after_predict_tuned)
next
  assume "measurement_correct k m = Inr k'"
    and "columns (system_covariance k) = rows (system_covariance k)"
  then show "symmetric_upto n (system_covariance k')"
    using corrected_square [of k m k' n] by simp
next
  assume "columns (system_covariance k) = rows (system_covariance k)"
    and "symmetric_upto n (system_covariance k)"
  then show "symmetric_upto n (system_covariance (fst (kalman_correct (spec_ops mx) k m)))"
    using symmetric_after_void_correct [of k n m] by (simp add: spec_ops_def)
next
  assume g: "size_guard mx"
  show "symmetric_filter (kf (fold (demo_body (spec_ops mx)) js
      (kalman_gravity_init (spec_ops mx) w)))"
    by (rule symmetric_demo_cycles(1) [OF g])
  show "symmetric_filter (kf (call_predict (spec_ops mx)
      (fold (demo_body (spec_ops mx)) js (kalman_gravity_init (spec_ops mx) w))))"
    by (rule symmetric_demo_cycles(2) [OF g])
  show "symmetric_filter (kf (fold (demo_lambda_body (spec_ops mx) l) js
      (kalman_gravity_init (spec_ops mx) w)))"
    by (rule symmetric_demo_cycles(3) [OF g])
  show "symmetric_filter (kf (call_predict_tuned (spec_ops mx) l
      (fold (demo_lambda_body (spec_ops mx) l) js (kalman_gravity_init (spec_ops mx) w))))"
    by (rule symmetric_demo_cycles(4) [OF g])
qed

lemma first_correct_succeeds:
  "isl (measurement_correct (filter_predict (fst gravity_start))
          (take_measurement 0 (snd gravity_start))) = False"
  by code_simp

lemma size_guard_3: "size_guard 3"
  by (simp add: size_guard_def KALMAN_NUM_STATES_def KALMAN_NUM_INPUTS_def
      KALMAN_NUM_MEASUREMENTS_def)

text \<open>With the capacity 3, from the program start: the first correct call of
  \<^verbatim>\<open>kalman_gravity_demo\<close> succeeds, on a square covariance, and \<open>P\<close> is symmetric after
  it; and \<open>P\<close> is symmetric after the fourth predict call, where the products
  \<open>A P A\<^sup>T\<close> at \<open>(0, 1)\<close> and at \<open>(1, 0)\<close> are rounded differently.\<close>

theorem covariance_symmetry_witness:
  "size_guard 3 \<and>
   measurement_correct (filter_predict (fst gravity_start)) (take_measurement 0 (snd gravity_start)) =
     Inr (projr (measurement_correct (filter_predict (fst gravity_start))
                   (take_measurement 0 (snd gravity_start)))) \<and>
   columns (system_covariance (filter_predict (fst gravity_start))) =
     rows (system_covariance (filter_predict (fst gravity_start))) \<and>
   symmetric_upto 3
     (system_covariance (projr (measurement_correct (filter_predict (fst gravity_start))
                   (take_measurement 0 (snd gravity_start))))) \<and>
   symmetric_upto 3 (system_covariance (fst (kalman_correct (spec_ops 3)
     (filter_predict (fst gravity_start)) (take_measurement 0 (snd gravity_start))))) \<and>
   symmetric_filter (kf (call_predict (spec_ops 3)
     (fold (demo_body (spec_ops 3)) [0, 1, 2] (kalman_gravity_init (spec_ops 3) static_world)))) \<and>
   symmetric_filter (kf (fold (demo_lambda_body (spec_ops 3) demo_lambda_constant) [0..<15]
     (kalman_gravity_init (spec_ops 3) static_world)))"
proof -
  have s: "measurement_correct (filter_predict (fst gravity_start))
             (take_measurement 0 (snd gravity_start)) =
           Inr (projr (measurement_correct (filter_predict (fst gravity_start))
                   (take_measurement 0 (snd gravity_start))))"
    using first_correct_succeeds by simp
  have q: "columns (system_covariance (filter_predict (fst gravity_start))) =
           rows (system_covariance (filter_predict (fst gravity_start)))"
    using predict_P_size [of "fst gravity_start"] by (simp add: filter_predict_def)
  from covariance_symmetry [where ops = "spec_ops 3" and w = static_world and mx = 3
      and k = "filter_predict (fst gravity_start)"
      and m = "take_measurement 0 (snd gravity_start)"
      and k' = "projr (measurement_correct (filter_predict (fst gravity_start))
                   (take_measurement 0 (snd gravity_start)))"
      and n = 3 and js = "[0, 1, 2]" and l = demo_lambda_constant]
    covariance_symmetry [where ops = "spec_ops 3" and w = static_world and mx = 3
      and k = "filter_predict (fst gravity_start)"
      and m = "take_measurement 0 (snd gravity_start)"
      and n = 3 and js = "[0..<15]" and l = demo_lambda_constant]
    covariance_symmetry [where ops = "spec_ops 3" and w = static_world and mx = 3
      and k = "fst gravity_start" and n = 3 and js = "[]"]
    s q size_guard_3
  show ?thesis by simp
qed

subsection \<open>The dimension guard\<close>

text \<open>
  Claim C6. Initialize of the core, with a state, input or measurement count above the
  capacity \<open>mx\<close>, returns \<open>DimensionError\<close>, and the call as the example makes it leaves
  the structure as it was. In a build that passes the size guard of lines 43-45, the
  two initialisation calls of \<^verbatim>\<open>kalman_gravity_init\<close> (3 states, 0 inputs, 1
  measurement) do not fail.
\<close>

theorem dimension_guard:
  "(mx < n \<or> mx < m \<longrightarrow>
      filter_initialize mx n m = Inl DimensionError \<and>
      kalman_filter_initialize (spec_ops mx) k n m = k) \<and>
   (mx < n \<or> mx < j \<longrightarrow>
      measurement_initialize mx n j = Inl DimensionError \<and>
      kalman_measurement_initialize (spec_ops mx) km n j = km) \<and>
   (size_guard mx \<longrightarrow>
      filter_initialize mx KALMAN_NUM_STATES KALMAN_NUM_INPUTS \<noteq> Inl DimensionError \<and>
      measurement_initialize mx KALMAN_NUM_STATES KALMAN_NUM_MEASUREMENTS \<noteq> Inl DimensionError)"
  by (simp add: filter_initialize_def measurement_initialize_def spec_ops_def
      void_filter_initialize_def void_measurement_initialize_def size_guard_def)

text \<open>Capacity 2 is too small for three states; capacity 3 passes the guard.\<close>

theorem dimension_guard_witness:
  "(2 :: nat) < 3 \<and>
   filter_initialize 2 3 0 = Inl DimensionError \<and>
   kalman_filter_initialize (spec_ops 2) (kf static_world) 3 0 = kf static_world \<and>
   measurement_initialize 2 3 1 = Inl DimensionError \<and>
   kalman_measurement_initialize (spec_ops 2) (kfm static_world) 3 1 = kfm static_world \<and>
   size_guard 3 \<and>
   filter_initialize 3 KALMAN_NUM_STATES KALMAN_NUM_INPUTS \<noteq> Inl DimensionError \<and>
   measurement_initialize 3 KALMAN_NUM_STATES KALMAN_NUM_MEASUREMENTS \<noteq> Inl DimensionError"
proof -
  have g: "size_guard 3"
    by (simp add: size_guard_def KALMAN_NUM_STATES_def KALMAN_NUM_INPUTS_def
        KALMAN_NUM_MEASUREMENTS_def)
  from dimension_guard [of 2 3 0 "kf static_world" 1 "kfm static_world"]
    dimension_guard [of 3 3 0 "kf static_world" 1 "kfm static_world"] g
  show ?thesis by simp
qed

end
